theory Spec2Isabelle
  imports Complex_Main "HOL-Library.Multiset" "HOL-Library.Sublist"
    "HOL-Library.List_Lexorder" "HOL-Library.Char_ord"
begin

section \<open>Data model\<close>

text \<open>
  The service averages the weights of Keras models stored as \<open>.h5\<close> files
  (\<open>src/ml_be/aggregator.py\<close>) and reports the outcome of a round to a callback URL
  (\<open>src/ml_be/main.py\<close>).

  A NumPy array is a shape together with its entries in row-major order. The entries are
  \<^typ>\<open>real\<close> numbers: rounding of floating-point arithmetic is outside this model, so
  every statement about a mean below is a statement about the exact mean.
\<close>

type_synonym path = string

record tensor =
  shape :: "nat list"
  data :: "real list"

text \<open>
  A Keras model: its architecture (opaque, \<open>config\<close>), the shapes of its weight variables
  in order (\<open>slots\<close>) and the current values of those variables (\<open>weights\<close>).
\<close>

record keras_model =
  config :: string
  slots :: "nat list list"
  weights :: "tensor list"

text \<open>What a path that exists holds: a file Keras cannot read, or a saved model.\<close>

datatype file_content = Corrupt | Artifact keras_model

type_synonym filesystem = "path \<rightharpoonup> file_content"



section \<open>Logging\<close>

datatype level = INFO | WARNING | ERROR

text \<open>The exceptions the libraries raise inside \<open>aggregate_models\<close>.\<close>

datatype agg_exn =
    LoadModelError path     \<comment> \<open>\<open>keras.models.load_model\<close> could not read the file\<close>
  | InhomogeneousShape      \<comment> \<open>\<open>np.array\<close> on arrays of different shapes: ValueError\<close>
  | SetWeightsError         \<comment> \<open>\<open>set_weights\<close>: wrong number of arrays or wrong shape: ValueError\<close>

text \<open>
  The exceptions that reach the handler of \<open>run_aggregation_and_callback\<close>, each with
  its message \<open>str(e)\<close>: the two the function raises itself, and whatever
  \<open>os.listdir\<close> or \<open>model.save\<close> raise (\<open>LibraryError\<close>).
\<close>

datatype exn = ValueError string | Exception string | LibraryError string

fun str_exn :: "exn \<Rightarrow> string" where
  "str_exn (ValueError s) = s"
| "str_exn (Exception s) = s"
| "str_exn (LibraryError s) = s"

text \<open>One constructor for each logging call of the two source files.\<close>

datatype msg =
    No_model_paths                    \<comment> \<open>aggregate_models called with no model paths.\<close>
  | Loaded_weights path               \<comment> \<open>Loaded weights from model: ...\<close>
  | Path_not_found path               \<comment> \<open>Model path not found, skipping: ...\<close>
  | Could_not_load_any                \<comment> \<open>Could not load any models from the provided paths.\<close>
  | Averaged nat                      \<comment> \<open>Successfully averaged weights from n models.\<close>
  | Created_global_model              \<comment> \<open>Created new global model and set averaged weights.\<close>
  | Aggregation_exn agg_exn           \<comment> \<open>An error occurred during model aggregation: ...\<close>
  | Starting string path              \<comment> \<open>Starting aggregation process for models in: ...\<close>
  | Found_models string nat           \<comment> \<open>Found n models to aggregate.\<close>
  | Saved_to string path              \<comment> \<open>Aggregated model saved to: ...\<close>
  | Round_exn string exn              \<comment> \<open>An error occurred during aggregation: ...\<close>
  | Sending_callback string string string  \<comment> \<open>Sending (status) callback to: ...\<close>
  | Callback_sent string              \<comment> \<open>Callback sent successfully.\<close>
  | Callback_failed string string string   \<comment> \<open>Failed to send callback to (url): ...\<close>
  | Accepted_request string           \<comment> \<open>Accepted aggregation request for round ...\<close>

type_synonym log = "(level \<times> msg) list"

section \<open>The aggregator: \<open>aggregator.py\<close>\<close>

subsection \<open>Library calls\<close>

definition os_path_exists :: "filesystem \<Rightarrow> path \<Rightarrow> bool" where
  "os_path_exists fs p = (fs p \<noteq> None)"

text \<open>\<open>keras.models.load_model(path)\<close>: the model, or an exception.\<close>

definition load_model :: "filesystem \<Rightarrow> path \<Rightarrow> agg_exn + keras_model" where
  "load_model fs p =
     (case fs p of
        None \<Rightarrow> Inl (LoadModelError p)
      | Some Corrupt \<Rightarrow> Inl (LoadModelError p)
      | Some (Artifact m) \<Rightarrow> Inr m)"

definition get_weights :: "keras_model \<Rightarrow> tensor list" where
  "get_weights m = weights m"

text \<open>
  \<open>model.set_weights(ws)\<close>: Keras raises ValueError when the number of arrays is not the
  number of variables, or when an array has not the shape of its variable.
\<close>

definition set_weights :: "keras_model \<Rightarrow> tensor list \<Rightarrow> agg_exn + keras_model" where
  "set_weights m ws =
     (if length ws \<noteq> length (slots m) then Inl SetWeightsError
      else if map shape ws \<noteq> slots m then Inl SetWeightsError
      else Inr (m\<lparr>weights := ws\<rparr>))"

text \<open>
  \<open>zip(*all_models_weights)\<close>: the iterator takes one element from every list in turn and
  stops as soon as one list is exhausted, so it yields as many tuples as the shortest list
  has elements.
\<close>

function zip_star :: "'a list list \<Rightarrow> 'a list list" where
  "zip_star xss =
     (if xss = [] \<or> [] \<in> set xss then []
      else map hd xss # zip_star (map tl xss))"
  by pat_completeness auto
termination
proof (relation "measure (\<lambda>xss. length (hd xss))")
  show "wf (measure (\<lambda>xss::'a list list. length (hd xss)))"
    by simp
next
  fix xss :: "'a list list"
  assume "\<not> (xss = [] \<or> [] \<in> set xss)"
  then obtain xs rest where "xss = xs # rest" and "xs \<noteq> []"
    by (cases xss) auto
  then show "(map tl xss, xss) \<in> measure (\<lambda>xss. length (hd xss))"
    by (cases xs) auto
qed

declare zip_star.simps [simp del]

text \<open>
  \<open>np.mean(np.array(tup), axis=0)\<close>. \<open>np.array\<close> stacks the arrays of the tuple along a
  new first axis and raises ValueError when their shapes differ (NumPy 1.24 and later);
  the mean along that axis adds the rows entry by entry (\<open>add_reduce\<close>) and divides by
  their number. The tuple is never empty: \<open>zip\<close> builds it from one element of each of
  the lists, and there is at least one list.
\<close>

fun add_reduce :: "real list \<Rightarrow> real list list \<Rightarrow> real list" where
  "add_reduce acc [] = acc"
| "add_reduce acc (r # rs) = add_reduce (map2 (+) acc r) rs"

fun np_mean_axis0 :: "tensor list \<Rightarrow> agg_exn + tensor" where
  "np_mean_axis0 (t # ts) =
     (if \<forall>u \<in> set ts. shape u = shape t
      then Inr \<lparr>shape = shape t,
                data = map (\<lambda>s. s / real (length (t # ts))) (add_reduce (data t) (map data ts))\<rparr>
      else Inl InhomogeneousShape)"

subsection \<open>\<open>aggregate_models\<close>\<close>

text \<open>
  The loading loop (lines 50 to 56). A path that does not exist is skipped with a warning;
  a path that exists goes to \<open>load_model\<close>, whose exception leaves the loop.
\<close>

fun load_loop ::
  "filesystem \<Rightarrow> path list \<Rightarrow> tensor list list \<Rightarrow> log \<Rightarrow> (agg_exn + tensor list list) \<times> log"
where
  "load_loop fs [] acc lg = (Inr acc, lg)"
| "load_loop fs (p # ps) acc lg =
     (if os_path_exists fs p then
        (case load_model fs p of
           Inl e \<Rightarrow> (Inl e, lg)
         | Inr m \<Rightarrow> load_loop fs ps (acc @ [get_weights m]) (lg @ [(INFO, Loaded_weights p)]))
      else load_loop fs ps acc (lg @ [(WARNING, Path_not_found p)]))"

text \<open>The averaging loop (lines 63 to 68), over the tuples \<open>zip\<close> yields.\<close>

fun average_loop :: "tensor list list \<Rightarrow> tensor list \<Rightarrow> agg_exn + tensor list" where
  "average_loop [] avg_weights = Inr avg_weights"
| "average_loop (tup # tups) avg_weights =
     (case np_mean_axis0 tup of
        Inl e \<Rightarrow> Inl e
      | Inr layer_mean \<Rightarrow> average_loop tups (avg_weights @ [layer_mean]))"

text \<open>
  The body of the \<open>try\<close> block (lines 48 to 80): an exception, or the value returned
  (\<open>None\<close> at line 60, the model at line 80), with the log written on the way. The test
  at line 75 compares the function \<open>aggregate_models\<close> itself with \<open>None\<close> and is
  never true. \<open>model_paths[0]\<close> exists: the list is not empty here.
\<close>

definition aggregate_try ::
  "filesystem \<Rightarrow> path list \<Rightarrow> (agg_exn + keras_model option) \<times> log"
where
  "aggregate_try fs model_paths =
     (case load_loop fs model_paths [] [] of
        (Inl e, lg) \<Rightarrow> (Inl e, lg)
      | (Inr all_models_weights, lg) \<Rightarrow>
          if all_models_weights = [] then (Inr None, lg @ [(ERROR, Could_not_load_any)])
          else
            (case average_loop (zip_star all_models_weights) [] of
               Inl e \<Rightarrow> (Inl e, lg)
             | Inr avg_weights \<Rightarrow>
                 let lg2 = lg @ [(INFO, Averaged (length all_models_weights))] in
                 (case load_model fs (hd model_paths) of
                    Inl e \<Rightarrow> (Inl e, lg2)
                  | Inr aggregated_model \<Rightarrow>
                      (case set_weights aggregated_model avg_weights of
                         Inl e \<Rightarrow> (Inl e, lg2)
                       | Inr m \<Rightarrow> (Inr (Some m), lg2 @ [(INFO, Created_global_model)])))))"

text \<open>
  \<open>aggregate_models\<close>: the guard on the empty list, then the \<open>try\<close> block, whose handler
  logs the exception and returns \<open>None\<close>.
\<close>

definition aggregate_models :: "filesystem \<Rightarrow> path list \<Rightarrow> keras_model option \<times> log" where
  "aggregate_models fs model_paths =
     (if model_paths = [] then (None, [(WARNING, No_model_paths)])
      else
        (case aggregate_try fs model_paths of
           (Inl e, lg) \<Rightarrow> (None, lg @ [(ERROR, Aggregation_exn e)])
         | (Inr r, lg) \<Rightarrow> (r, lg)))"

section \<open>The service: \<open>main.py\<close>\<close>

subsection \<open>Library calls and the environment\<close>

definition OUTPUT_DIR :: path where
  "OUTPUT_DIR = ''aggregated_models''"

text \<open>\<open>os.path.join(a, b)\<close> of \<open>posixpath\<close>, for two arguments.\<close>

definition os_path_join :: "path \<Rightarrow> string \<Rightarrow> path" where
  "os_path_join a b =
     (if b \<noteq> [] \<and> hd b = CHR ''/'' then b
      else if a = [] \<or> last a = CHR ''/'' then a @ b
      else a @ ''/'' @ b)"

text \<open>\<open>s.endswith(suf)\<close>.\<close>

definition endswith :: "string \<Rightarrow> string \<Rightarrow> bool" where
  "endswith s suf = (length suf \<le> length s \<and> drop (length s - length suf) s = suf)"

text \<open>
  \<open>requests.post\<close> returns a response whatever its HTTP status code is, and raises a
  \<open>RequestException\<close> when the connection fails or the timeout passes.
\<close>

datatype post_outcome = Response nat | RequestException string

type_synonym callback_data = "(string \<times> string) list"

text \<open>
  What the service reads from the world around it: the files (\<open>os.path.exists\<close>,
  \<open>load_model\<close>), \<open>os.listdir\<close> (the names of a directory in the order the operating
  system gives them, or an error message), \<open>os.path.isdir\<close>, whether \<open>model.save\<close>
  raises at a path (and with which message), \<open>os.path.abspath\<close>, and what happens to an
  HTTP POST of a JSON body to a URL.
\<close>

record env =
  files :: filesystem
  listdir :: "path \<Rightarrow> string + string list"
  isdir :: "path \<Rightarrow> bool"
  save_error :: "path \<Rightarrow> string option"
  abspath :: "path \<Rightarrow> path"
  http_post :: "string \<Rightarrow> callback_data \<Rightarrow> post_outcome"

text \<open>
  The validated body of \<open>POST /aggregate\<close>; \<open>callback_url\<close> is the string of the URL, as
  line 114 passes it on.
\<close>

record aggregation_request =
  roundId :: string
  models_directory :: string
  callback_url :: string

subsection \<open>\<open>run_aggregation_and_callback\<close>\<close>

text \<open>Line 49: the paths of the directory's entries whose name ends with \<open>.h5\<close>.\<close>

definition find_model_paths :: "path \<Rightarrow> string list \<Rightarrow> path list" where
  "find_model_paths models_dir names =
     map (os_path_join models_dir) (filter (\<lambda>f. endswith f ''.h5'') names)"

text \<open>
  The first \<open>try\<close> block (lines 47 to 73): the exception that leaves it, or the callback
  data of a success; the log it wrote; the files afterwards (\<open>model.save\<close> writes one).
\<close>

definition aggregation_try :: "env \<Rightarrow> string \<Rightarrow> path \<Rightarrow> (exn + callback_data) \<times> log \<times> filesystem" where
  "aggregation_try e round_id models_dir =
     (case listdir e models_dir of
        Inl err \<Rightarrow> (Inl (LibraryError err), [], files e)
      | Inr names \<Rightarrow>
          let model_paths = find_model_paths models_dir names in
          if model_paths = [] then
            (Inl (ValueError ''No model files (.h5) found in the specified directory.''), [], files e)
          else
            let lg = (INFO, Found_models round_id (length model_paths))
                       # snd (aggregate_models (files e) model_paths) in
            (case fst (aggregate_models (files e) model_paths) of
               None \<Rightarrow>
                 (Inl (Exception ''Model aggregation failed. Check logs for details.''), lg, files e)
             | Some aggregated_model \<Rightarrow>
                 let output_filename = ''global_model_'' @ round_id @ ''.h5'';
                     aggregated_model_path = os_path_join OUTPUT_DIR output_filename in
                 (case save_error e aggregated_model_path of
                    Some err \<Rightarrow> (Inl (LibraryError err), lg, files e)
                  | None \<Rightarrow>
                      (Inr [(''roundId'', round_id),
                            (''status'', ''success''),
                            (''aggregated_model_path'', abspath e aggregated_model_path)],
                       lg @ [(INFO, Saved_to round_id aggregated_model_path)],
                       (files e)(aggregated_model_path \<mapsto> Artifact aggregated_model)))))"

text \<open>
  What a run of the background task leaves behind: the two local variables that hold the
  round's terminal state, the POST requests it made (URL, JSON body, timeout in seconds),
  its log and the files.
\<close>

record round_outcome =
  response_status :: string
  round_callback_data :: callback_data
  requests :: "(string \<times> callback_data \<times> nat) list"
  round_log :: log
  files_after :: filesystem

definition run_aggregation_and_callback :: "env \<Rightarrow> string \<Rightarrow> path \<Rightarrow> string \<Rightarrow> round_outcome" where
  "run_aggregation_and_callback e round_id models_dir url =
     (case aggregation_try e round_id models_dir of (r, lg, fs') \<Rightarrow>
        let lg1 = (INFO, Starting round_id models_dir) # lg;
            cd = (case r of
                    Inr d \<Rightarrow> d
                  | Inl ex \<Rightarrow> [(''roundId'', round_id), (''status'', ''error''), (''message'', str_exn ex)]);
            st = (case r of Inr d \<Rightarrow> ''success'' | Inl ex \<Rightarrow> ''error'');
            lg2 = (case r of Inr d \<Rightarrow> lg1 | Inl ex \<Rightarrow> lg1 @ [(ERROR, Round_exn round_id ex)]);
            lg3 = lg2 @ [(INFO, Sending_callback round_id st url)];
            lg4 = (case http_post e url cd of
                     Response code \<Rightarrow> lg3 @ [(INFO, Callback_sent round_id)]
                   | RequestException err \<Rightarrow> lg3 @ [(ERROR, Callback_failed round_id url err)])
        in \<lparr>response_status = st, round_callback_data = cd, requests = [(url, cd, 15)],
            round_log = lg4, files_after = fs'\<rparr>)"

subsection \<open>\<open>aggregate_endpoint\<close>\<close>

text \<open>
  The reply of \<open>POST /aggregate\<close>: the \<open>HTTPException\<close> raised, or the JSON body returned
  under the status code of the route's decorator. A background task is the argument
  triple \<open>add_task\<close> stores for \<open>run_aggregation_and_callback\<close>.
\<close>

datatype http_reply = HTTPException nat string | JSONReply nat "(string \<times> string) list"

type_synonym task = "string \<times> path \<times> string"

definition aggregate_endpoint ::
  "env \<Rightarrow> aggregation_request \<Rightarrow> task list \<Rightarrow> http_reply \<times> task list \<times> log"
where
  "aggregate_endpoint e request background_tasks =
     (if \<not> isdir e (models_directory request) then
        (HTTPException 404 (''Directory not found: '' @ models_directory request),
         background_tasks, [])
      else
        (JSONReply 202 [(''status'', ''Aggregation process started''), (''roundId'', roundId request)],
         background_tasks @ [(roundId request, models_directory request, callback_url request)],
         [(INFO, Accepted_request (roundId request))]))"

subsection \<open>Names for values of the code\<close>

text \<open>
  The exception of line 52 (no file with the extension in the directory), the exception of
  line 59 (\<open>aggregate_models\<close> returned \<open>None\<close>) and the path lines 62 and 63 build for
  the saved model.
\<close>

definition no_models_found :: exn where
  "no_models_found = ValueError ''No model files (.h5) found in the specified directory.''"

definition aggregation_failed :: exn where
  "aggregation_failed = Exception ''Model aggregation failed. Check logs for details.''"

definition output_path :: "string \<Rightarrow> path" where
  "output_path round_id = os_path_join OUTPUT_DIR (''global_model_'' @ round_id @ ''.h5'')"

section \<open>The mean, as the specification words it\<close>


section \<open>Concrete inputs\<close>

text \<open>A model with one layer that holds the weight vector \<open>[x]\<close>, and three such files.\<close>

definition single_layer :: "real \<Rightarrow> keras_model" where
  "single_layer x = \<lparr>config = ''dense'', slots = [[1]], weights = [\<lparr>shape = [1], data = [x]\<rparr>]\<rparr>"

definition three_files :: filesystem where
  "three_files =
     [''m/a.h5'' \<mapsto> Artifact (single_layer 1),
      ''m/b.h5'' \<mapsto> Artifact (single_layer 2),
      ''m/c.h5'' \<mapsto> Artifact (single_layer 3)]"


definition two_layer :: "real \<Rightarrow> real \<Rightarrow> keras_model" where
  "two_layer x y =
     \<lparr>config = ''deep'', slots = [[1], [1]],
      weights = [\<lparr>shape = [1], data = [x]\<rparr>, \<lparr>shape = [1], data = [y]\<rparr>]\<rparr>"

definition mixed_files :: filesystem where
  "mixed_files = [''m/a.h5'' \<mapsto> Artifact (single_layer 1), ''m/b.h5'' \<mapsto> Artifact (two_layer 3 5)]"

definition column :: "nat \<Rightarrow> keras_model" where
  "column n = \<lparr>config = ''dense'', slots = [[n, 1]],
               weights = [\<lparr>shape = [n, 1], data = replicate n 0\<rparr>]\<rparr>"

definition mismatch_files :: filesystem where
  "mismatch_files = [''m/a.h5'' \<mapsto> Artifact (column 10), ''m/b.h5'' \<mapsto> Artifact (column 5)]"

definition one_corrupt_file :: filesystem where
  "one_corrupt_file = [''m/c.h5'' \<mapsto> Corrupt]"

text \<open>
  An environment whose directory \<open>m\<close> lists the given names, where saving succeeds and the
  callback URL answers as given; and a request for that directory.
\<close>

definition example_env :: "filesystem \<Rightarrow> string list \<Rightarrow> post_outcome \<Rightarrow> env" where
  "example_env fs names reply =
     \<lparr>files = fs,
      listdir = (\<lambda>d. if d = ''m'' then Inr names else Inl ''No such file or directory''),
      isdir = (\<lambda>d. d = ''m''),
      save_error = (\<lambda>p. None),
      abspath = (\<lambda>p. ''/srv/'' @ p),
      http_post = (\<lambda>u d. reply)\<rparr>"

definition example_request :: aggregation_request where
  "example_request = \<lparr>roundId = ''r1'', models_directory = ''m'', callback_url = ''http://cb''\<rparr>"

section \<open>Properties of the aggregator\<close>

subsection \<open>The library calls and the loops\<close>

lemma tl_nth_Suc: "xs \<noteq> [] \<Longrightarrow> tl xs ! k = xs ! Suc k"
  by (cases xs) simp_all

lemma zip_star_Nil: "zip_star [] = []"
  by (simp add: zip_star.simps)

lemma zip_star_stop: "[] \<in> set xss \<Longrightarrow> zip_star xss = []"
  by (simp add: zip_star.simps)

lemma zip_star_step:
  "xss \<noteq> [] \<Longrightarrow> [] \<notin> set xss \<Longrightarrow> zip_star xss = map hd xss # zip_star (map tl xss)"
  by (subst zip_star.simps) simp

lemma zip_star_length_le: "xs \<in> set xss \<Longrightarrow> length (zip_star xss) \<le> length xs"
proof (induction xss arbitrary: xs rule: zip_star.induct)
  case (1 xss)
  show ?case
  proof (cases "xss = [] \<or> [] \<in> set xss")
    case True
    then show ?thesis by (simp add: zip_star.simps)
  next
    case False
    then have ne: "xs \<noteq> []" using "1.prems" by auto
    have "tl xs \<in> set (map tl xss)" using "1.prems" by simp
    from "1.IH" [OF False this] have "length (zip_star (map tl xss)) \<le> length (tl xs)" .
    moreover have "zip_star xss = map hd xss # zip_star (map tl xss)"
      using False by (simp add: zip_star_step)
    ultimately show ?thesis using ne by (cases xs) auto
  qed
qed

lemma zip_star_length_ex: "xss \<noteq> [] \<Longrightarrow> \<exists>xs \<in> set xss. length xs = length (zip_star xss)"
proof (induction xss rule: zip_star.induct)
  case (1 xss)
  show ?case
  proof (cases "[] \<in> set xss")
    case True
    then show ?thesis by (auto simp: zip_star_stop intro!: bexI [of _ "[]"])
  next
    case False
    with "1.prems" have F: "\<not> (xss = [] \<or> [] \<in> set xss)" by simp
    have "map tl xss \<noteq> []" using "1.prems" by simp
    from "1.IH" [OF F this] obtain ys where ys: "ys \<in> set (map tl xss)"
      "length ys = length (zip_star (map tl xss))" by blast
    then obtain xs where xs: "xs \<in> set xss" "ys = tl xs" by auto
    with False have "xs \<noteq> []" by auto
    then have "length xs = Suc (length ys)" using xs by (cases xs) auto
    then show ?thesis using xs ys F by (auto simp: zip_star_step)
  qed
qed

lemma zip_star_nth:
  "i < length (zip_star xss) \<Longrightarrow> zip_star xss ! i = map (\<lambda>xs. xs ! i) xss"
proof (induction xss arbitrary: i rule: zip_star.induct)
  case (1 xss)
  show ?case
  proof (cases "xss = [] \<or> [] \<in> set xss")
    case True
    then show ?thesis using "1.prems" by (simp add: zip_star.simps)
  next
    case False
    then have step: "zip_star xss = map hd xss # zip_star (map tl xss)"
      by (simp add: zip_star_step)
    show ?thesis
    proof (cases i)
      case 0
      have "\<forall>xs \<in> set xss. hd xs = xs ! 0"
        using False by (metis hd_conv_nth)
      then have "map hd xss = map (\<lambda>xs. xs ! 0) xss"
        by simp
      then show ?thesis using 0 step by simp
    next
      case (Suc k)
      then have "k < length (zip_star (map tl xss))" using "1.prems" step by simp
      from "1.IH" [OF False this]
      have "zip_star (map tl xss) ! k = map (\<lambda>xs. xs ! k) (map tl xss)" .
      also have "\<dots> = map (\<lambda>xs. xs ! Suc k) xss"
      proof -
        have "tl xs ! k = xs ! Suc k" if "xs \<in> set xss" for xs
        proof -
          from that False have "xs \<noteq> []" by auto
          then show ?thesis by (simp add: tl_nth_Suc)
        qed
        then show ?thesis by simp
      qed
      finally show ?thesis using Suc step by simp
    qed
  qed
qed




lemma average_loop_fail:
  "tup \<in> set tups \<Longrightarrow> np_mean_axis0 tup = Inl e \<Longrightarrow> \<exists>e'. average_loop tups acc = Inl e'"
  by (induction tups arbitrary: acc) (auto split: sum.splits)

lemma average_loop_length:
  "average_loop tups acc = Inr r \<Longrightarrow> length r = length acc + length tups"
  by (induction tups arbitrary: acc) (auto split: sum.splits)

lemma load_loop_all_valid:
  "map fs ps = map (\<lambda>m. Some (Artifact m)) ms \<Longrightarrow>
   load_loop fs ps acc lg =
     (Inr (acc @ map weights ms), lg @ map (\<lambda>p. (INFO, Loaded_weights p)) ps)"
proof (induction ps arbitrary: ms acc lg)
  case Nil
  then show ?case by simp
next
  case (Cons p ps)
  then obtain m ms' where ms: "ms = m # ms'" "fs p = Some (Artifact m)"
    "map fs ps = map (\<lambda>m. Some (Artifact m)) ms'"
    by (cases ms) auto
  show ?case
    using Cons.IH [OF ms(3)] ms(1,2)
    by (simp add: os_path_exists_def load_model_def get_weights_def)
qed




lemma zip_star_single: "zip_star [ws] = map (\<lambda>t. [t]) ws"
  by (induction ws) (simp_all add: zip_star_stop zip_star_step)

lemma average_loop_singles: "average_loop (map (\<lambda>t. [t]) ws) acc = Inr (acc @ ws)"
  by (induction ws arbitrary: acc) simp_all

lemma np_mean_axis0_mismatch:
  assumes "a \<in> set tup" and "b \<in> set tup" and "shape a \<noteq> shape b"
  shows "np_mean_axis0 tup = Inl InhomogeneousShape"
proof -
  from assms(1) obtain t ts where tup: "tup = t # ts" by (cases tup) auto
  have "\<not> (\<forall>u \<in> set ts. shape u = shape t)"
  proof
    assume "\<forall>u \<in> set ts. shape u = shape t"
    then have "\<forall>u \<in> set tup. shape u = shape t" by (simp add: tup)
    with assms show False by auto
  qed
  then show ?thesis by (simp add: tup)
qed

subsection \<open>The result and the log of \<open>aggregate_models\<close>\<close>

lemma aggregate_models_result:
  "fst (aggregate_models fs ps) =
     (if ps = [] then None
      else case fst (load_loop fs ps [] []) of
             Inl e \<Rightarrow> None
           | Inr ws \<Rightarrow>
               if ws = [] then None
               else case average_loop (zip_star ws) [] of
                      Inl e \<Rightarrow> None
                    | Inr avg \<Rightarrow>
                        (case load_model fs (hd ps) of
                           Inl e \<Rightarrow> None
                         | Inr t \<Rightarrow>
                             (case set_weights t avg of Inl e \<Rightarrow> None | Inr m \<Rightarrow> Some m)))"
  by (simp add: aggregate_models_def aggregate_try_def Let_def split: prod.splits sum.splits)





lemma load_loop_none_loadable:
  "\<forall>p \<in> set ps. \<forall>m. fs p \<noteq> Some (Artifact m) \<Longrightarrow>
   (\<exists>e. fst (load_loop fs ps acc lg) = Inl e) \<or> fst (load_loop fs ps acc lg) = Inr acc"
  by (induction ps arbitrary: acc lg)
     (auto simp: os_path_exists_def load_model_def split: sum.splits option.splits file_content.splits)

lemma aggregate_models_none_loadable:
  assumes "\<forall>p \<in> set ps. \<forall>m. fs p \<noteq> Some (Artifact m)"
  shows "fst (aggregate_models fs ps) = None"
  using load_loop_none_loadable [OF assms, of "[]" "[]"]
  by (auto simp: aggregate_models_result)

text \<open>Equations that evaluate \<open>aggregate_models\<close> on concrete files.\<close>

lemmas eval_defs =
  aggregate_models_result os_path_exists_def load_model_def get_weights_def set_weights_def
  zip_star_step zip_star_stop zip_star_Nil

section \<open>Properties of the service\<close>

subsection \<open>The parts of a run\<close>

lemma run_response_status:
  "response_status (run_aggregation_and_callback e r d u) =
     (case fst (aggregation_try e r d) of Inl ex \<Rightarrow> ''error'' | Inr cd \<Rightarrow> ''success'')"
  by (simp add: run_aggregation_and_callback_def Let_def split: prod.splits sum.splits)

lemma run_callback_data:
  "round_callback_data (run_aggregation_and_callback e r d u) =
     (case fst (aggregation_try e r d) of
        Inl ex \<Rightarrow> [(''roundId'', r), (''status'', ''error''), (''message'', str_exn ex)]
      | Inr cd \<Rightarrow> cd)"
  by (simp add: run_aggregation_and_callback_def Let_def split: prod.splits sum.splits)

lemma run_requests:
  "requests (run_aggregation_and_callback e r d u) =
     [(u, round_callback_data (run_aggregation_and_callback e r d u), 15)]"
  by (simp add: run_aggregation_and_callback_def Let_def split: prod.splits sum.splits)

lemma run_files_after:
  "files_after (run_aggregation_and_callback e r d u) = snd (snd (aggregation_try e r d))"
  by (simp add: run_aggregation_and_callback_def Let_def split: prod.splits sum.splits)

lemma run_log_last:
  "last (round_log (run_aggregation_and_callback e r d u)) =
     (case http_post e u (round_callback_data (run_aggregation_and_callback e r d u)) of
        Response code \<Rightarrow> (INFO, Callback_sent r)
      | RequestException err \<Rightarrow> (ERROR, Callback_failed r u err))"
  by (simp add: run_aggregation_and_callback_def Let_def
      split: prod.splits sum.splits post_outcome.splits)

lemma aggregation_try_listdir_error:
  "listdir e d = Inl err \<Longrightarrow> aggregation_try e r d = (Inl (LibraryError err), [], files e)"
  by (simp add: aggregation_try_def)

lemma aggregation_try_no_files:
  "listdir e d = Inr names \<Longrightarrow> find_model_paths d names = [] \<Longrightarrow>
   aggregation_try e r d = (Inl no_models_found, [], files e)"
  by (simp add: aggregation_try_def no_models_found_def)

lemma aggregation_try_no_model:
  "listdir e d = Inr names \<Longrightarrow> find_model_paths d names \<noteq> [] \<Longrightarrow>
   fst (aggregate_models (files e) (find_model_paths d names)) = None \<Longrightarrow>
   fst (aggregation_try e r d) = Inl aggregation_failed \<and>
   snd (snd (aggregation_try e r d)) = files e"
  by (simp add: aggregation_try_def aggregation_failed_def Let_def)

lemma aggregation_try_save_error:
  "listdir e d = Inr names \<Longrightarrow> find_model_paths d names \<noteq> [] \<Longrightarrow>
   fst (aggregate_models (files e) (find_model_paths d names)) = Some m \<Longrightarrow>
   save_error e (os_path_join OUTPUT_DIR (''global_model_'' @ r @ ''.h5'')) = Some err \<Longrightarrow>
   fst (aggregation_try e r d) = Inl (LibraryError err) \<and>
   snd (snd (aggregation_try e r d)) = files e"
  by (simp add: aggregation_try_def Let_def)

lemma aggregation_try_success:
  "listdir e d = Inr names \<Longrightarrow> find_model_paths d names \<noteq> [] \<Longrightarrow>
   fst (aggregate_models (files e) (find_model_paths d names)) = Some m \<Longrightarrow>
   save_error e (os_path_join OUTPUT_DIR (''global_model_'' @ r @ ''.h5'')) = None \<Longrightarrow>
   fst (aggregation_try e r d) =
     Inr [(''roundId'', r), (''status'', ''success''),
          (''aggregated_model_path'',
           abspath e (os_path_join OUTPUT_DIR (''global_model_'' @ r @ ''.h5'')))] \<and>
   snd (snd (aggregation_try e r d)) =
     (files e)(os_path_join OUTPUT_DIR (''global_model_'' @ r @ ''.h5'') \<mapsto> Artifact m)"
  by (simp add: aggregation_try_def Let_def)

lemma example_paths:
  "find_model_paths ''m'' [''a.h5'', ''b.h5''] = [''m/a.h5'', ''m/b.h5'']"
  "find_model_paths ''m'' [''a.h5'', ''b.h5'', ''c.h5''] = [''m/a.h5'', ''m/b.h5'', ''m/c.h5'']"
  by (simp_all add: find_model_paths_def endswith_def os_path_join_def)

lemma example_paths2:
  "find_model_paths ''m'' [''c.h5''] = [''m/c.h5'']"
  "find_model_paths ''m'' [''a.h5'', ''b.h5'', ''x.h5''] = [''m/a.h5'', ''m/b.h5'', ''m/x.h5'']"
  by (simp_all add: find_model_paths_def endswith_def os_path_join_def)

section \<open>The statements of the specification\<close>

subsection \<open>Averaging\<close>



subsection \<open>Artifacts that disagree\<close>

text \<open>
  C2, as amended. Let every path of the round hold a model. If two of the models disagree
  on the shape of the tensor at an index that all of them have, or if one of them has
  fewer tensors than the first model's architecture has variables, then
  \<open>aggregate_models\<close> returns \<open>None\<close>, the round ends with the status \<open>error\<close> and no
  file is written: nothing is averaged for part of the layers.
\<close>

theorem shape_disagreement_fails:
  assumes dir: "listdir e d = Inr names" "find_model_paths d names = ps" "ps \<noteq> []"
    and loaded: "map (files e) ps = map (\<lambda>m. Some (Artifact m)) ms"
    and differ:
      "(\<exists>a \<in> set ms. \<exists>b \<in> set ms. \<exists>i. (\<forall>m \<in> set ms. i < length (weights m)) \<and>
           shape (weights a ! i) \<noteq> shape (weights b ! i)) \<or>
       (\<exists>m \<in> set ms. length (weights m) < length (slots (hd ms)))"
  shows "fst (aggregate_models (files e) ps) = None \<and>
         response_status (run_aggregation_and_callback e r d u) = ''error'' \<and>
         files_after (run_aggregation_and_callback e r d u) = files e"
proof -
  define W where "W = map weights ms"
  from dir(3) loaded have ms_ne: "ms \<noteq> []"
    by (metis length_map list.size(3) length_0_conv)
  then have W_ne: "W \<noteq> []" by (simp add: W_def)
  have load: "fst (load_loop (files e) ps [] []) = Inr W"
    using load_loop_all_valid [OF loaded, of "[]" "[]"] by (simp add: W_def)
  have tmpl: "load_model (files e) (hd ps) = Inr (hd ms)"
  proof -
    have "files e (hd ps) = hd (map (files e) ps)" using dir(3) by (simp add: hd_map)
    also have "\<dots> = Some (Artifact (hd ms))" using ms_ne by (simp add: loaded hd_map)
    finally show ?thesis by (simp add: load_model_def)
  qed
  have none: "fst (aggregate_models (files e) ps) = None"
  proof (cases "average_loop (zip_star W) []")
    case (Inl ex)
    then show ?thesis using dir(3) load W_ne by (simp add: aggregate_models_result)
  next
    case (Inr avg)
    have no_mismatch: "\<not> (\<exists>a \<in> set ms. \<exists>b \<in> set ms. \<exists>i. (\<forall>m \<in> set ms. i < length (weights m)) \<and>
           shape (weights a ! i) \<noteq> shape (weights b ! i))"
    proof
      assume "\<exists>a \<in> set ms. \<exists>b \<in> set ms. \<exists>i. (\<forall>m \<in> set ms. i < length (weights m)) \<and>
           shape (weights a ! i) \<noteq> shape (weights b ! i)"
      then obtain a b i where ab: "a \<in> set ms" "b \<in> set ms"
        "\<forall>m \<in> set ms. i < length (weights m)" "shape (weights a ! i) \<noteq> shape (weights b ! i)"
        by blast
      from zip_star_length_ex [OF W_ne] obtain w where "w \<in> set W" "length w = length (zip_star W)"
        by blast
      with ab(3) have i: "i < length (zip_star W)" by (auto simp: W_def)
      let ?tup = "map (\<lambda>w. w ! i) W"
      have "?tup \<in> set (zip_star W)"
        using i zip_star_nth [OF i] by (metis nth_mem)
      moreover have "weights a ! i \<in> set ?tup" "weights b ! i \<in> set ?tup"
        using ab(1,2) by (auto simp: W_def)
      then have "np_mean_axis0 ?tup = Inl InhomogeneousShape"
        using ab(4) by (rule np_mean_axis0_mismatch)
      ultimately obtain ex where "average_loop (zip_star W) [] = Inl ex"
        using average_loop_fail by blast
      with Inr show False by simp
    qed
    with differ obtain m where m: "m \<in> set ms" "length (weights m) < length (slots (hd ms))"
      by blast
    have "length avg = length (zip_star W)"
      using average_loop_length [OF Inr] by simp
    also have "\<dots> \<le> length (weights m)"
      using zip_star_length_le [of "weights m" W] m(1) by (simp add: W_def)
    finally have "length avg \<noteq> length (slots (hd ms))" using m(2) by simp
    then have "set_weights (hd ms) avg = Inl SetWeightsError"
      by (simp add: set_weights_def)
    then show ?thesis using dir(3) load W_ne Inr tmpl by (simp add: aggregate_models_result)
  qed
  have run: "response_status (run_aggregation_and_callback e r d u) = ''error'' \<and>
      files_after (run_aggregation_and_callback e r d u) = files e"
    using aggregation_try_no_model [of e d names r] none dir
    by (simp add: run_response_status run_files_after)
  show ?thesis using none run by simp
qed

text \<open>
  The scenario of the specification: layer-0 tensors of the shapes \<open>(10, 1)\<close> and
  \<open>(5, 1)\<close>.
\<close>

theorem shape_disagreement_fails_witness:
  "fst (aggregate_models mismatch_files [''m/a.h5'', ''m/b.h5'']) = None \<and>
   response_status (run_aggregation_and_callback
      (example_env mismatch_files [''a.h5'', ''b.h5''] (Response 200)) ''r1'' ''m'' ''http://cb'') = ''error'' \<and>
   files_after (run_aggregation_and_callback
      (example_env mismatch_files [''a.h5'', ''b.h5''] (Response 200)) ''r1'' ''m'' ''http://cb'') = mismatch_files"
proof -
  let ?e = "example_env mismatch_files [''a.h5'', ''b.h5''] (Response 200)"
  let ?ms = "[column 10, column 5]"
  have a: "listdir ?e ''m'' = Inr [''a.h5'', ''b.h5'']" by (simp add: example_env_def)
  have b: "find_model_paths ''m'' [''a.h5'', ''b.h5''] = [''m/a.h5'', ''m/b.h5'']"
    by (rule example_paths)
  have c: "[''m/a.h5'', ''m/b.h5''] \<noteq> ([]::path list)" by simp
  have d: "map (files ?e) [''m/a.h5'', ''m/b.h5''] = map (\<lambda>m. Some (Artifact m)) ?ms"
    by (simp add: example_env_def mismatch_files_def)
  have f: "(\<exists>a \<in> set ?ms. \<exists>b \<in> set ?ms. \<exists>i. (\<forall>m \<in> set ?ms. i < length (weights m)) \<and>
           shape (weights a ! i) \<noteq> shape (weights b ! i)) \<or>
       (\<exists>m \<in> set ?ms. length (weights m) < length (slots (hd ?ms)))"
    by (rule disjI1, rule bexI [of _ "column 10"], rule bexI [of _ "column 5"], rule exI [of _ 0])
       (simp_all add: column_def)
  have "files ?e = mismatch_files" by (simp add: example_env_def)
  with shape_disagreement_fails [OF a b c d f, of "''r1''" "''http://cb''"]
  show ?thesis by simp
qed

text \<open>
  C2 as stated fails: \<open>zip\<close> stops at the shortest weight list and nothing compares the
  lengths. A first artifact with one layer and a second with two layers disagree on the
  length of the sequence, and yet the aggregation succeeds: the result is the first
  architecture with the mean of the two first layers, \<open>(1 + 3) / 2 = 2\<close>, and the round
  ends with the status \<open>success\<close>.
\<close>

theorem prefix_is_averaged:
  "length (weights (single_layer 1)) \<noteq> length (weights (two_layer 3 5)) \<and>
   fst (aggregate_models mixed_files [''m/a.h5'', ''m/b.h5'']) = Some (single_layer 2) \<and>
   response_status (run_aggregation_and_callback
      (example_env mixed_files [''a.h5'', ''b.h5''] (Response 200)) ''r1'' ''m'' ''http://cb'') = ''success''"
proof -
  have a: "fst (aggregate_models mixed_files [''m/a.h5'', ''m/b.h5'']) = Some (single_layer 2)"
    by (simp add: eval_defs mixed_files_def single_layer_def two_layer_def)
  then have "response_status (run_aggregation_and_callback
      (example_env mixed_files [''a.h5'', ''b.h5''] (Response 200)) ''r1'' ''m'' ''http://cb'') = ''success''"
    by (simp add: run_aggregation_and_callback_def aggregation_try_def example_env_def
        example_paths Let_def)
  with a show ?thesis by (simp add: single_layer_def two_layer_def)
qed

subsection \<open>Paths that do not load\<close>




text \<open>
  The template is read from the first path of the list, whether the loop skipped that
  path or not: when it does not exist the call returns \<open>None\<close> although the two other
  paths were loaded and averaged.
\<close>

lemma first_path_missing_is_fatal:
  "fst (aggregate_models three_files [''m/x.h5'', ''m/a.h5'', ''m/b.h5'']) = None"
  by (simp add: eval_defs three_files_def single_layer_def)

subsection \<open>No loadable artifact\<close>

text \<open>
  C4, as amended. When the directory can be listed and none of the paths found in it
  holds a model, the round ends with the status \<open>error\<close> and exactly one POST carries the
  error payload to the callback URL. The message is the one of line 52 when no name ends
  with \<open>.h5\<close>, and the general message of line 59 otherwise.
\<close>

theorem no_loadable_artifact_fails:
  assumes "listdir e d = Inr names"
    and "\<forall>p \<in> set (find_model_paths d names). \<forall>m. files e p \<noteq> Some (Artifact m)"
  shows "response_status (run_aggregation_and_callback e r d u) = ''error'' \<and>
         requests (run_aggregation_and_callback e r d u) =
           [(u, [(''roundId'', r), (''status'', ''error''),
                 (''message'', str_exn (if find_model_paths d names = [] then no_models_found
                                        else aggregation_failed))], 15)]"
proof (cases "find_model_paths d names = []")
  case True
  from aggregation_try_no_files [OF assms(1) True, of r] show ?thesis
    using True by (simp add: run_response_status run_requests run_callback_data)
next
  case False
  have "fst (aggregate_models (files e) (find_model_paths d names)) = None"
    by (rule aggregate_models_none_loadable [OF assms(2)])
  from aggregation_try_no_model [OF assms(1) False this, of r] show ?thesis
    using False by (simp add: run_response_status run_requests run_callback_data)
qed

text \<open>A directory that holds no \<open>.h5\<close> file at all.\<close>

theorem no_loadable_artifact_fails_witness:
  "response_status (run_aggregation_and_callback
      (example_env Map.empty [''notes.txt''] (Response 200)) ''r1'' ''m'' ''http://cb'') = ''error'' \<and>
   requests (run_aggregation_and_callback
      (example_env Map.empty [''notes.txt''] (Response 200)) ''r1'' ''m'' ''http://cb'') =
     [(''http://cb'', [(''roundId'', ''r1''), (''status'', ''error''),
        (''message'', ''No model files (.h5) found in the specified directory.'')], 15)]"
proof -
  let ?e = "example_env Map.empty [''notes.txt''] (Response 200)"
  have a: "listdir ?e ''m'' = Inr [''notes.txt'']" by (simp add: example_env_def)
  have b: "find_model_paths ''m'' [''notes.txt''] = []"
    by (simp add: find_model_paths_def endswith_def)
  then have c: "\<forall>p \<in> set (find_model_paths ''m'' [''notes.txt'']). \<forall>m. files ?e p \<noteq> Some (Artifact m)"
    by simp
  from no_loadable_artifact_fails [OF a c, of "''r1''" "''http://cb''"] b show ?thesis
    by (simp add: no_models_found_def)
qed

text \<open>
  C4 as stated fails for a directory whose files are all unreadable: the exception that
  ends the round is the general one of line 59, not the one of line 52, and the log does
  not hold the message of line 59 of the aggregator either.
\<close>

theorem unreadable_files_are_not_no_models_found:
  "fst (aggregation_try (example_env one_corrupt_file [''c.h5''] (Response 200)) ''r1'' ''m'')
     = Inl aggregation_failed \<and>
   aggregation_failed \<noteq> no_models_found \<and>
   round_callback_data (run_aggregation_and_callback
      (example_env one_corrupt_file [''c.h5''] (Response 200)) ''r1'' ''m'' ''http://cb'') =
     [(''roundId'', ''r1''), (''status'', ''error''),
      (''message'', ''Model aggregation failed. Check logs for details.'')] \<and>
   (ERROR, Could_not_load_any) \<notin> set (round_log (run_aggregation_and_callback
      (example_env one_corrupt_file [''c.h5''] (Response 200)) ''r1'' ''m'' ''http://cb''))"
  by (simp add: run_aggregation_and_callback_def aggregation_try_def example_env_def
        example_paths2 Let_def aggregation_failed_def no_models_found_def
        aggregate_models_def aggregate_try_def one_corrupt_file_def os_path_exists_def load_model_def)

subsection \<open>One artifact\<close>

text \<open>
  C5: a list with exactly one path, holding a model whose variables have the shapes of
  its architecture, aggregates to that very model: the tensors returned are those of the
  artifact.
\<close>

theorem aggregate_models_single:
  assumes "fs p = Some (Artifact m)" and "slots m = map shape (weights m)"
  shows "fst (aggregate_models fs [p]) = Some m"
proof -
  have load: "load_loop fs [p] [] [] = (Inr [weights m], [(INFO, Loaded_weights p)])"
    using assms(1) by (simp add: os_path_exists_def load_model_def get_weights_def)
  have avg: "average_loop (zip_star [weights m]) [] = Inr (weights m)"
    by (simp add: zip_star_single average_loop_singles)
  have tmpl: "load_model fs (hd [p]) = Inr m"
    using assms(1) by (simp add: load_model_def)
  have sw: "set_weights m (weights m) = Inr m"
    using assms(2) by (simp add: set_weights_def)
  show ?thesis
    using load avg tmpl sw by (simp add: aggregate_models_def aggregate_try_def)
qed

text \<open>The second of the three files, aggregated alone.\<close>

theorem aggregate_models_single_witness:
  "fst (aggregate_models three_files [''m/b.h5'']) = Some (single_layer 2)"
proof -
  have "three_files ''m/b.h5'' = Some (Artifact (single_layer 2))"
    by (simp add: three_files_def)
  moreover have "slots (single_layer 2) = map shape (weights (single_layer 2))"
    by (simp add: single_layer_def)
  ultimately show ?thesis by (rule aggregate_models_single)
qed

subsection \<open>Notification\<close>

text \<open>
  C6: every run makes exactly one POST to the callback URL, whose body is the round's
  callback data. If an exception left the first \<open>try\<close> block the status is \<open>error\<close> and
  the body carries the round id and the exception's message; otherwise the status is
  \<open>success\<close> and the body carries the path of the saved model. An exception leaves the
  block exactly when the directory cannot be listed, no name ends with \<open>.h5\<close>,
  \<open>aggregate_models\<close> returns \<open>None\<close>, or saving fails.
\<close>

theorem every_round_is_notified:
  "requests (run_aggregation_and_callback e r d u) =
     [(u, round_callback_data (run_aggregation_and_callback e r d u), 15)] \<and>
   (case fst (aggregation_try e r d) of
      Inl ex \<Rightarrow>
        response_status (run_aggregation_and_callback e r d u) = ''error'' \<and>
        round_callback_data (run_aggregation_and_callback e r d u) =
          [(''roundId'', r), (''status'', ''error''), (''message'', str_exn ex)]
    | Inr cd \<Rightarrow>
        response_status (run_aggregation_and_callback e r d u) = ''success'' \<and>
        round_callback_data (run_aggregation_and_callback e r d u) =
          [(''roundId'', r), (''status'', ''success''),
           (''aggregated_model_path'', abspath e (output_path r))]) \<and>
   ((\<exists>ex. fst (aggregation_try e r d) = Inl ex) \<longleftrightarrow>
      (\<exists>err. listdir e d = Inl err) \<or>
      (\<exists>names. listdir e d = Inr names \<and>
         (find_model_paths d names = [] \<or>
          fst (aggregate_models (files e) (find_model_paths d names)) = None \<or>
          (\<exists>err. save_error e (output_path r) = Some err))))"
proof (cases "listdir e d")
  case (Inl err)
  from aggregation_try_listdir_error [OF this, of r] Inl show ?thesis
    by (simp add: run_requests run_response_status run_callback_data)
next
  case (Inr names)
  show ?thesis
  proof (cases "find_model_paths d names = []")
    case True
    from aggregation_try_no_files [OF Inr True, of r] Inr True show ?thesis
      by (simp add: run_requests run_response_status run_callback_data)
  next
    case False
    show ?thesis
    proof (cases "fst (aggregate_models (files e) (find_model_paths d names))")
      case None
      from aggregation_try_no_model [OF Inr False None, of r] Inr False None show ?thesis
        by (simp add: run_requests run_response_status run_callback_data)
    next
      case (Some m)
      show ?thesis
      proof (cases "save_error e (output_path r)")
        case None
        from aggregation_try_success [OF Inr False Some, of r] None Inr False Some show ?thesis
          by (simp add: run_requests run_response_status run_callback_data output_path_def)
      next
        case (Some err)
        from aggregation_try_save_error [OF Inr False \<open>fst (aggregate_models (files e) (find_model_paths d names)) = Some m\<close>, of r err]
          Some Inr False show ?thesis
          by (simp add: run_requests run_response_status run_callback_data output_path_def)
      qed
    qed
  qed
qed

text \<open>A directory that cannot be listed: the error is posted to the callback URL.\<close>

theorem every_round_is_notified_witness:
  "requests (run_aggregation_and_callback
      (example_env three_files [''a.h5'', ''b.h5'', ''c.h5''] (Response 200)) ''r1'' ''gone'' ''http://cb'') =
     [(''http://cb'', [(''roundId'', ''r1''), (''status'', ''error''),
        (''message'', ''No such file or directory'')], 15)]"
proof -
  let ?e = "example_env three_files [''a.h5'', ''b.h5'', ''c.h5''] (Response 200)"
  have "aggregation_try ?e ''r1'' ''gone'' = (Inl (LibraryError ''No such file or directory''), [], files ?e)"
    by (rule aggregation_try_listdir_error) (simp add: example_env_def)
  with every_round_is_notified [where e = ?e and r = "''r1''" and d = "''gone''" and u = "''http://cb''"]
  show ?thesis
    by simp
qed

text \<open>
  C7, as amended. Whatever the POST does, the status, the callback data, the files and
  the request made are the same, there is one request, and the log differs in its last
  entry only: an error entry when \<open>requests.post\<close> raised a \<open>RequestException\<close>, and the
  entry "Callback sent successfully." when it returned a response, whatever its status
  code. The reply of the endpoint does not depend on it.
\<close>

theorem callback_outcome_leaves_round_unchanged:
  "response_status (run_aggregation_and_callback (e\<lparr>http_post := h\<rparr>) r d u) =
     response_status (run_aggregation_and_callback e r d u) \<and>
   round_callback_data (run_aggregation_and_callback (e\<lparr>http_post := h\<rparr>) r d u) =
     round_callback_data (run_aggregation_and_callback e r d u) \<and>
   files_after (run_aggregation_and_callback (e\<lparr>http_post := h\<rparr>) r d u) =
     files_after (run_aggregation_and_callback e r d u) \<and>
   requests (run_aggregation_and_callback (e\<lparr>http_post := h\<rparr>) r d u) =
     requests (run_aggregation_and_callback e r d u) \<and>
   length (requests (run_aggregation_and_callback e r d u)) = 1 \<and>
   butlast (round_log (run_aggregation_and_callback (e\<lparr>http_post := h\<rparr>) r d u)) =
     butlast (round_log (run_aggregation_and_callback e r d u)) \<and>
   (\<forall>err. http_post e u (round_callback_data (run_aggregation_and_callback e r d u))
            = RequestException err \<longrightarrow>
      last (round_log (run_aggregation_and_callback e r d u)) = (ERROR, Callback_failed r u err)) \<and>
   (\<forall>code. http_post e u (round_callback_data (run_aggregation_and_callback e r d u))
            = Response code \<longrightarrow>
      last (round_log (run_aggregation_and_callback e r d u)) = (INFO, Callback_sent r)) \<and>
   aggregate_endpoint (e\<lparr>http_post := h\<rparr>) request tasks = aggregate_endpoint e request tasks"
proof -
  have same: "aggregation_try (e\<lparr>http_post := h\<rparr>) r d = aggregation_try e r d"
    by (simp add: aggregation_try_def Let_def cong: sum.case_cong option.case_cong if_cong)
  have bl: "butlast (round_log (run_aggregation_and_callback e' r d u)) =
      (INFO, Starting r d) # fst (snd (aggregation_try e' r d)) @
      (case fst (aggregation_try e' r d) of
         Inl ex \<Rightarrow> [(ERROR, Round_exn r ex), (INFO, Sending_callback r ''error'' u)]
       | Inr cd \<Rightarrow> [(INFO, Sending_callback r ''success'' u)])" for e'
    by (simp add: run_aggregation_and_callback_def Let_def butlast_append
        split: prod.splits sum.splits post_outcome.splits)
  show ?thesis
    by (simp add: run_response_status run_callback_data run_files_after run_requests
        run_log_last same bl aggregate_endpoint_def)
qed

text \<open>A timeout of the callback after a successful round.\<close>

theorem callback_outcome_leaves_round_unchanged_witness:
  "response_status (run_aggregation_and_callback
      (example_env three_files [''a.h5'', ''b.h5'', ''c.h5''] (RequestException ''timed out''))
      ''r1'' ''m'' ''http://cb'') = ''success'' \<and>
   last (round_log (run_aggregation_and_callback
      (example_env three_files [''a.h5'', ''b.h5'', ''c.h5''] (RequestException ''timed out''))
      ''r1'' ''m'' ''http://cb'')) = (ERROR, Callback_failed ''r1'' ''http://cb'' ''timed out'')"
proof -
  let ?e = "example_env three_files [''a.h5'', ''b.h5'', ''c.h5''] (Response 200)"
  let ?h = "\<lambda>(u::string) (d::callback_data). RequestException ''timed out''"
  have e': "?e\<lparr>http_post := ?h\<rparr> =
      example_env three_files [''a.h5'', ''b.h5'', ''c.h5''] (RequestException ''timed out'')"
    by (simp add: example_env_def)
  have "fst (aggregate_models three_files [''m/a.h5'', ''m/b.h5'', ''m/c.h5'']) = Some (single_layer 2)"
    by (simp add: eval_defs three_files_def single_layer_def)
  then have st: "response_status (run_aggregation_and_callback ?e ''r1'' ''m'' ''http://cb'') = ''success''"
    by (simp add: run_response_status aggregation_try_def example_env_def example_paths Let_def)
  have post: "http_post (?e\<lparr>http_post := ?h\<rparr>) u d = RequestException ''timed out''" for u d
    by simp
  from callback_outcome_leaves_round_unchanged
      [where e = ?e and h = ?h and r = "''r1''" and d = "''m''" and u = "''http://cb''"]
    callback_outcome_leaves_round_unchanged
      [where e = "?e\<lparr>http_post := ?h\<rparr>" and h = ?h and r = "''r1''" and d = "''m''"
         and u = "''http://cb''"]
    st post
  show ?thesis unfolding e' by metis
qed

text \<open>
  C7 as stated fails for a response that is not 2xx: the code never reads the status code
  of the response, so a reply 500 is logged as a callback sent successfully and the log
  of the round holds no error entry.
\<close>

theorem non_2xx_is_logged_as_sent:
  "http_post (example_env three_files [''a.h5'', ''b.h5'', ''c.h5''] (Response 500)) ''http://cb''
      (round_callback_data (run_aggregation_and_callback
         (example_env three_files [''a.h5'', ''b.h5'', ''c.h5''] (Response 500))
         ''r1'' ''m'' ''http://cb'')) = Response 500 \<and>
   last (round_log (run_aggregation_and_callback
      (example_env three_files [''a.h5'', ''b.h5'', ''c.h5''] (Response 500))
      ''r1'' ''m'' ''http://cb'')) = (INFO, Callback_sent ''r1'') \<and>
   filter (\<lambda>x. fst x = ERROR) (round_log (run_aggregation_and_callback
      (example_env three_files [''a.h5'', ''b.h5'', ''c.h5''] (Response 500))
      ''r1'' ''m'' ''http://cb'')) = []"
proof -
  have "aggregate_models three_files [''m/a.h5'', ''m/b.h5'', ''m/c.h5''] =
      (Some (single_layer 2),
       [(INFO, Loaded_weights ''m/a.h5''), (INFO, Loaded_weights ''m/b.h5''),
        (INFO, Loaded_weights ''m/c.h5''), (INFO, Averaged 3), (INFO, Created_global_model)])"
    by (simp add: aggregate_models_def aggregate_try_def os_path_exists_def load_model_def
        get_weights_def set_weights_def zip_star_step zip_star_stop three_files_def single_layer_def)
  then show ?thesis
    by (simp add: run_aggregation_and_callback_def aggregation_try_def example_env_def
        example_paths Let_def)
qed

subsection \<open>Selecting the files\<close>




subsection \<open>The endpoint\<close>

text \<open>
  C9: when \<open>models_directory\<close> is not a directory the endpoint raises the HTTP error 404
  and the background tasks are unchanged; otherwise it replies 202 with the status text
  and the round id, and adds exactly one task, for this round, to the background tasks.
\<close>

theorem aggregate_endpoint_replies:
  "(\<not> isdir e (models_directory request) \<longrightarrow>
      aggregate_endpoint e request tasks =
        (HTTPException 404 (''Directory not found: '' @ models_directory request), tasks, [])) \<and>
   (isdir e (models_directory request) \<longrightarrow>
      fst (aggregate_endpoint e request tasks) =
        JSONReply 202 [(''status'', ''Aggregation process started''), (''roundId'', roundId request)] \<and>
      fst (snd (aggregate_endpoint e request tasks)) =
        tasks @ [(roundId request, models_directory request, callback_url request)])"
  by (simp add: aggregate_endpoint_def)

text \<open>A request for a directory that is missing, and one for a directory that exists.\<close>

theorem aggregate_endpoint_replies_witness:
  "aggregate_endpoint (example_env three_files [''a.h5''] (Response 200))
      (example_request\<lparr>models_directory := ''gone''\<rparr>) [] =
     (HTTPException 404 ''Directory not found: gone'', [], []) \<and>
   fst (aggregate_endpoint (example_env three_files [''a.h5''] (Response 200)) example_request []) =
     JSONReply 202 [(''status'', ''Aggregation process started''), (''roundId'', ''r1'')] \<and>
   fst (snd (aggregate_endpoint (example_env three_files [''a.h5''] (Response 200)) example_request [])) =
     [(''r1'', ''m'', ''http://cb'')]"
proof -
  let ?e = "example_env three_files [''a.h5''] (Response 200)"
  have a: "\<not> isdir ?e (models_directory (example_request\<lparr>models_directory := ''gone''\<rparr>))"
    by (simp add: example_env_def)
  have b: "isdir ?e (models_directory example_request)"
    by (simp add: example_env_def example_request_def)
  from aggregate_endpoint_replies
      [where e = ?e and request = "example_request\<lparr>models_directory := ''gone''\<rparr>" and tasks = "[]"]
    aggregate_endpoint_replies [where e = ?e and request = example_request and tasks = "[]"]
    a b
  show ?thesis by (simp add: example_request_def)
qed

subsection \<open>No paths\<close>

text \<open>
  C10: called with an empty list of paths, \<open>aggregate_models\<close> returns \<open>None\<close> at its
  guard, having logged one warning; no exception is involved.
\<close>

theorem aggregate_models_empty:
  "aggregate_models fs [] = (None, [(WARNING, No_model_paths)])"
  by (simp add: aggregate_models_def)

end
